theory Spec2Isabelle
  imports Complex_Main
begin

section \<open>Python values and exceptions\<close>

text \<open>
  Exceptions that the modelled functions raise, catch or receive from the libraries they
  call. \<open>DecodeError\<close> stands for whatever \<open>librosa.load\<close> raises on a file it cannot
  decode; \<open>HTTPException\<close> carries the status code and the detail string.
\<close>

datatype py_exception =
    DecodeError
  | ValueError
  | ZeroDivisionError
  | RuntimeError
  | HTTPException nat string

text \<open>
  \<open>range(start, stop, step)\<close>: a zero step raises \<open>ValueError\<close>, a positive step counts
  upwards while below \<open>stop\<close>, a negative step counts downwards while above it.
\<close>

function range_up :: "int \<Rightarrow> int \<Rightarrow> int \<Rightarrow> int list" where
  "range_up i stop step =
     (if 0 < step \<and> i < stop then i # range_up (i + step) stop step else [])"
  by pat_completeness auto
termination
  by (relation "measure (\<lambda>(i, stop, step). nat (stop - i))") auto

function range_down :: "int \<Rightarrow> int \<Rightarrow> int \<Rightarrow> int list" where
  "range_down i stop step =
     (if step < 0 \<and> stop < i then i # range_down (i + step) stop step else [])"
  by pat_completeness auto
termination
  by (relation "measure (\<lambda>(i, stop, step). nat (i - stop))") auto

declare range_up.simps [simp del] range_down.simps [simp del]

definition py_range :: "int \<Rightarrow> int \<Rightarrow> int \<Rightarrow> py_exception + int list" where
  "py_range start stop step =
     (if step = 0 then Inl ValueError
      else if 0 < step then Inr (range_up start stop step)
      else Inr (range_down start stop step))"

text \<open>
  \<open>xs[i:j]\<close>: a negative bound counts from the end, and both bounds are clamped to
  \<open>0 .. len(xs)\<close>; the slice is empty when the bounds cross.
\<close>

definition slice_index :: "int \<Rightarrow> int \<Rightarrow> nat" where
  "slice_index n i = nat (max 0 (min n (if i < 0 then i + n else i)))"

definition py_slice :: "'a list \<Rightarrow> int \<Rightarrow> int \<Rightarrow> 'a list" where
  "py_slice xs i j =
     (let n = int (length xs); lo = slice_index n i; hi = slice_index n j
      in take (hi - lo) (drop lo xs))"

section \<open>Chunk splitter\<close>

text \<open>
  \<open>split_audio_into_chunks\<close> of \<open>backend/main.py\<close> (the copy in \<open>app.py\<close> differs only in
  how the error is reported). \<open>librosa.load(audio_path, sr=sample_rate)\<close> is the external
  decoder, passed as \<open>librosa_load\<close>: it yields the samples and their rate, or raises.
  The whole body sits in \<open>try ... except Exception\<close>, whose handler returns
  \<open>([], sample_rate)\<close>; the result type keeps an \<open>Inl\<close> side for an exception that would
  reach the caller.
\<close>

definition split_audio_into_chunks ::
  "(string \<Rightarrow> int \<Rightarrow> py_exception + ('a list \<times> int)) \<Rightarrow> string \<Rightarrow> int \<Rightarrow> int
     \<Rightarrow> py_exception + ('a list list \<times> int)" where
  "split_audio_into_chunks librosa_load audio_path chunk_duration_seconds sample_rate =
     (case librosa_load audio_path sample_rate of
        Inl e \<Rightarrow> Inr ([], sample_rate)
      | Inr (audio, sr) \<Rightarrow>
          (let chunk_size = chunk_duration_seconds * sample_rate in
           case py_range 0 (int (length audio)) chunk_size of
             Inl e \<Rightarrow> Inr ([], sample_rate)
           | Inr starts \<Rightarrow>
               Inr (map (\<lambda>i. py_slice audio i (i + chunk_size)) starts, sr)))"

text \<open>Two decoders used as concrete inputs: a seven-sample file, and a file that does not decode.\<close>

definition seven_sample_load :: "string \<Rightarrow> int \<Rightarrow> py_exception + (real list \<times> int)" where
  "seven_sample_load audio_path sample_rate = Inr ([1, 2, 3, 4, 5, 6, 7], sample_rate)"

definition undecodable_load :: "string \<Rightarrow> int \<Rightarrow> py_exception + (real list \<times> int)" where
  "undecodable_load audio_path sample_rate = Inl DecodeError"

section \<open>Audio effects post-processor\<close>

text \<open>
  Samples are modelled as real numbers. The two \<open>librosa.effects\<close> transforms are
  external: each may raise, and a record carries them.
\<close>

record librosa_effects =
  effects_pitch_shift :: "real list \<Rightarrow> int \<Rightarrow> real \<Rightarrow> py_exception + real list"
  effects_time_stretch :: "real list \<Rightarrow> real \<Rightarrow> py_exception + real list"

text \<open>\<open>np.clip(x, a_min, a_max)\<close> on one sample.\<close>

definition np_clip :: "real \<Rightarrow> real \<Rightarrow> real \<Rightarrow> real" where
  "np_clip a_min a_max x = min (max x a_min) a_max"

text \<open>
  The \<open>try\<close> block of \<open>apply_audio_effects\<close>. A stage that raises leaves the block with
  the value \<open>audio_array\<close> holds at that moment (\<open>Inl\<close>); otherwise the block reaches its
  \<open>return\<close> (\<open>Inr\<close>).
\<close>

definition apply_audio_effects_try ::
  "librosa_effects \<Rightarrow> real list \<Rightarrow> int \<Rightarrow> real \<Rightarrow> real \<Rightarrow> real
     \<Rightarrow> (py_exception \<times> real list) + real list" where
  "apply_audio_effects_try fx audio_array sample_rate pitch_shift speed_factor volume_factor =
     (case (if pitch_shift \<noteq> 0
            then effects_pitch_shift fx audio_array sample_rate pitch_shift
            else Inr audio_array) of
        Inl e \<Rightarrow> Inl (e, audio_array)
      | Inr shifted \<Rightarrow>
          (case (if speed_factor \<noteq> 1
                 then effects_time_stretch fx shifted speed_factor
                 else Inr shifted) of
             Inl e \<Rightarrow> Inl (e, shifted)
           | Inr stretched \<Rightarrow>
               Inr (if volume_factor \<noteq> 1
                    then map (np_clip (- 1) 1) (map (\<lambda>x. x * volume_factor) stretched)
                    else stretched)))"

text \<open>The handler \<open>except Exception\<close> prints and returns \<open>audio_array\<close> as it stands.\<close>

definition apply_audio_effects ::
  "librosa_effects \<Rightarrow> real list \<Rightarrow> int \<Rightarrow> real \<Rightarrow> real \<Rightarrow> real \<Rightarrow> real list" where
  "apply_audio_effects fx audio_array sample_rate pitch_shift speed_factor volume_factor =
     (case apply_audio_effects_try fx audio_array sample_rate pitch_shift speed_factor
             volume_factor of
        Inl (e, audio_array') \<Rightarrow> audio_array'
      | Inr result \<Rightarrow> result)"

text \<open>
  Effects used as concrete inputs: transforms that hand their input back, and transforms
  that raise.
\<close>

definition passthrough_effects :: librosa_effects where
  "passthrough_effects =
     \<lparr> effects_pitch_shift = (\<lambda>audio sr n_steps. Inr audio),
       effects_time_stretch = (\<lambda>audio rate. Inr audio) \<rparr>"


section \<open>Conversion worker and chunk combiner\<close>

text \<open>\<open>np.zeros_like(chunk)\<close>: as many samples as the chunk, all zero.\<close>

definition zeros_like :: "real list \<Rightarrow> real list" where
  "zeros_like chunk = replicate (length chunk) 0"

text \<open>
  The \<open>for i, chunk in enumerate(chunks)\<close> loop of \<open>process_audio_chunks\<close> in
  \<open>backend/main.py\<close>. \<open>vc_generate i chunk sample_rate target_voice_path\<close> stands for the
  external part of the \<open>try\<close> body for chunk \<open>i\<close>: the temporary file, \<open>ta.save\<close>,
  \<open>vc_model.generate\<close> and the conversion of its result to an array; it yields the
  converted samples or raises. On success the effects are applied and the result is
  appended; the handler appends silence instead. \<open>safe_file_cleanup\<close> only touches the
  file system and its boolean result is dropped.
\<close>

fun convert_chunks ::
  "(nat \<Rightarrow> real list \<Rightarrow> int \<Rightarrow> string option \<Rightarrow> py_exception + real list) \<Rightarrow> librosa_effects
     \<Rightarrow> nat \<Rightarrow> real list list \<Rightarrow> int \<Rightarrow> string option \<Rightarrow> real \<Rightarrow> real \<Rightarrow> real
     \<Rightarrow> real list list \<Rightarrow> real list list" where
  "convert_chunks vc_generate fx i [] sample_rate target_voice_path
     pitch_shift speed_factor volume_factor converted_chunks = converted_chunks"
| "convert_chunks vc_generate fx i (chunk # rest) sample_rate target_voice_path
     pitch_shift speed_factor volume_factor converted_chunks =
     convert_chunks vc_generate fx (Suc i) rest sample_rate target_voice_path
       pitch_shift speed_factor volume_factor
       (converted_chunks @
         [case vc_generate i chunk sample_rate target_voice_path of
            Inr converted_audio \<Rightarrow>
              apply_audio_effects fx converted_audio sample_rate
                pitch_shift speed_factor volume_factor
          | Inl e \<Rightarrow> zeros_like chunk])"

text \<open>
  The result is \<open>None\<close> when nothing was appended, and otherwise the concatenation as a
  tensor with one row (\<open>unsqueeze(0)\<close>).
\<close>

definition process_audio_chunks ::
  "(nat \<Rightarrow> real list \<Rightarrow> int \<Rightarrow> string option \<Rightarrow> py_exception + real list) \<Rightarrow> librosa_effects
     \<Rightarrow> real list list \<Rightarrow> int \<Rightarrow> string option \<Rightarrow> real \<Rightarrow> real \<Rightarrow> real
     \<Rightarrow> real list list option" where
  "process_audio_chunks vc_generate fx chunks sample_rate target_voice_path
     pitch_shift speed_factor volume_factor =
     (let converted_chunks =
            convert_chunks vc_generate fx 0 chunks sample_rate target_voice_path
              pitch_shift speed_factor volume_factor []
      in if converted_chunks \<noteq> [] then Some [concat converted_chunks] else None)"

text \<open>
  The copy in \<open>app.py\<close>: no effects stage, and progress reporting that does not touch the
  result.
\<close>

fun app_convert_chunks ::
  "(nat \<Rightarrow> real list \<Rightarrow> int \<Rightarrow> string option \<Rightarrow> py_exception + real list)
     \<Rightarrow> nat \<Rightarrow> real list list \<Rightarrow> int \<Rightarrow> string option
     \<Rightarrow> real list list \<Rightarrow> real list list" where
  "app_convert_chunks vc_generate i [] sample_rate target_voice_path converted_chunks =
     converted_chunks"
| "app_convert_chunks vc_generate i (chunk # rest) sample_rate target_voice_path
     converted_chunks =
     app_convert_chunks vc_generate (Suc i) rest sample_rate target_voice_path
       (converted_chunks @
         [case vc_generate i chunk sample_rate target_voice_path of
            Inr converted_audio \<Rightarrow> converted_audio
          | Inl e \<Rightarrow> zeros_like chunk])"

definition app_process_audio_chunks ::
  "(nat \<Rightarrow> real list \<Rightarrow> int \<Rightarrow> string option \<Rightarrow> py_exception + real list)
     \<Rightarrow> real list list \<Rightarrow> int \<Rightarrow> string option \<Rightarrow> real list list option" where
  "app_process_audio_chunks vc_generate chunks sample_rate target_voice_path =
     (let converted_chunks =
            app_convert_chunks vc_generate 0 chunks sample_rate target_voice_path []
      in if converted_chunks \<noteq> [] then Some [concat converted_chunks] else None)"

text \<open>
  Converters used as concrete inputs: one that fails on every chunk, and one that fails
  on chunk 1 only and doubles the samples of the others.
\<close>

definition failing_vc :: "nat \<Rightarrow> real list \<Rightarrow> int \<Rightarrow> string option \<Rightarrow> py_exception + real list" where
  "failing_vc i chunk sample_rate target_voice_path = Inl RuntimeError"


section \<open>Voice-sample validation\<close>

text \<open>Decimal rendering of integers, as an f-string does it.\<close>

definition digit_char :: "nat \<Rightarrow> char" where
  "digit_char d = ''0123456789'' ! d"

function str_nat :: "nat \<Rightarrow> string" where
  "str_nat n = (if n < 10 then [digit_char n] else str_nat (n div 10) @ [digit_char (n mod 10)])"
  by pat_completeness auto
termination
  by (relation "measure (\<lambda>n. n)") auto

declare str_nat.simps [simp del]

definition str_int :: "int \<Rightarrow> string" where
  "str_int i = (if i < 0 then CHR ''-'' # str_nat (nat (- i)) else str_nat (nat i))"


text \<open>
  What the validation reads from its environment: \<open>os.path.exists\<close>, \<open>os.path.getsize\<close>
  and \<open>librosa.load(path, sr=None)\<close>, which yields the samples with the file's own rate,
  or raises.
\<close>

record file_system =
  os_path_exists :: "string \<Rightarrow> bool"
  os_path_getsize :: "string \<Rightarrow> nat"
  librosa_load_native :: "string \<Rightarrow> py_exception + (real list \<times> int)"

text \<open>
  \<open>get_audio_duration_seconds\<close>: \<open>len(audio) / sr\<close>; any exception, the division by a
  zero rate included, is caught and gives 0.
\<close>

definition get_audio_duration_seconds :: "file_system \<Rightarrow> string \<Rightarrow> real" where
  "get_audio_duration_seconds fs file_path =
     (case librosa_load_native fs file_path of
        Inl e \<Rightarrow> 0
      | Inr (audio, sr) \<Rightarrow>
          if sr = 0 then 0 else real (length audio) / real_of_int sr)"

definition validate_audio_file :: "file_system \<Rightarrow> string \<Rightarrow> int \<Rightarrow> bool \<times> string" where
  "validate_audio_file fs file_path max_duration_minutes =
     (if \<not> os_path_exists fs file_path then (False, ''File does not exist'')
      else
        let file_size = os_path_getsize fs file_path;
            max_size = 100 * 1024 * 1024
        in if file_size > max_size
           then (False, ''File too large. Maximum size is ''
                          @ str_nat (max_size div (1024 * 1024)) @ ''MB'')
           else
             let duration = get_audio_duration_seconds fs file_path
             in if duration > real_of_int (max_duration_minutes * 60)
                then (False, ''Audio too long. Maximum duration is ''
                               @ str_int max_duration_minutes @ '' minutes'')
                else if duration < 1
                then (False, ''Audio too short. Minimum duration is 1 second'')
                else (True, ''Valid''))"





definition three_second_upload :: file_system where
  "three_second_upload =
     \<lparr> os_path_exists = (\<lambda>p. True),
       os_path_getsize = (\<lambda>p. 96044),
       librosa_load_native = (\<lambda>p. Inr (replicate 48000 0, 16000)) \<rparr>"


section \<open>Video audio reconciler\<close>







section \<open>Model lifecycle manager\<close>

text \<open>
  The module globals \<open>tts_model\<close>, \<open>vc_model\<close>, \<open>current_device\<close> and \<open>model_load_time\<close>.
  A loaded model is identified by the number of the \<open>from_pretrained\<close> call that built
  it; \<open>pretrained_calls\<close> counts those calls, and \<open>loads_started\<close> counts the entries into
  the loading block of \<open>load_models\<close> (one line \<open>Loading models on ...\<close> is printed per
  entry). The two counters are observers only: no modelled statement reads them.
\<close>

type_synonym handle = nat

record runtime =
  tts_model :: "handle option"
  vc_model :: "handle option"
  current_device :: string
  model_load_time :: "real option"
  pretrained_calls :: nat
  loads_started :: nat

text \<open>
  What the manager reads from its environment: the import flag \<open>CHATTERBOX_AVAILABLE\<close>,
  whether \<open>from_pretrained\<close> of either model class succeeds on a device (it raises
  otherwise), and the result of \<open>get_default_device()\<close>.
\<close>

datatype model_kind = TTS | VC

record chatterbox =
  CHATTERBOX_AVAILABLE :: bool
  from_pretrained_ok :: "model_kind \<Rightarrow> string \<Rightarrow> bool"
  get_default_device :: string

text \<open>The module as imported: nothing loaded, device \<open>cpu\<close>.\<close>

definition initial_runtime :: runtime where
  "initial_runtime =
     \<lparr> tts_model = None, vc_model = None, current_device = ''cpu'',
       model_load_time = None, pretrained_calls = 0, loads_started = 0 \<rparr>"

text \<open>
  \<open>load_models\<close>, run without interruption; \<open>now\<close> is the value of \<open>time.time()\<close>. An
  exception inside the \<open>try\<close> makes it return \<open>False\<close>, keeping the assignments made
  before.
\<close>

definition load_models ::
  "chatterbox \<Rightarrow> real \<Rightarrow> string option \<Rightarrow> runtime \<Rightarrow> (py_exception + bool) \<times> runtime" where
  "load_models cb now device s =
     (if \<not> CHATTERBOX_AVAILABLE cb
      then (Inl (HTTPException 500
             ''ChatterBox models are not available. Please install the chatterbox package.''), s)
      else
        let device = (case device of None \<Rightarrow> get_default_device cb | Some d \<Rightarrow> d)
        in if current_device s \<noteq> device \<or> tts_model s = None \<or> vc_model s = None
           then
             let s1 = s\<lparr>loads_started := loads_started s + 1\<rparr>
             in if \<not> from_pretrained_ok cb TTS device then (Inr False, s1)
                else
                  let s2 = s1\<lparr>tts_model := Some (pretrained_calls s1),
                              pretrained_calls := pretrained_calls s1 + 1\<rparr>
                  in if \<not> from_pretrained_ok cb VC device then (Inr False, s2)
                     else (Inr True,
                           s2\<lparr>vc_model := Some (pretrained_calls s2),
                              pretrained_calls := pretrained_calls s2 + 1,
                              current_device := device,
                              model_load_time := Some now\<rparr>)
           else (Inr True, s))"

definition unload_models :: "runtime \<Rightarrow> runtime" where
  "unload_models s = s\<lparr>tts_model := None, vc_model := None, model_load_time := None\<rparr>"

definition ensure_tts_model_loaded ::
  "chatterbox \<Rightarrow> real \<Rightarrow> string option \<Rightarrow> runtime
     \<Rightarrow> (py_exception + handle option) \<times> runtime" where
  "ensure_tts_model_loaded cb now device s =
     (if tts_model s = None
      then (case load_models cb now device s of
              (Inl e, s') \<Rightarrow> (Inl e, s')
            | (Inr success, s') \<Rightarrow>
                if \<not> success then (Inl (HTTPException 500 ''Failed to load TTS model''), s')
                else (Inr (tts_model s'), s'))
      else (Inr (tts_model s), s))"

definition ensure_vc_model_loaded ::
  "chatterbox \<Rightarrow> real \<Rightarrow> string option \<Rightarrow> runtime
     \<Rightarrow> (py_exception + handle option) \<times> runtime" where
  "ensure_vc_model_loaded cb now device s =
     (if vc_model s = None
      then (case load_models cb now device s of
              (Inl e, s') \<Rightarrow> (Inl e, s')
            | (Inr success, s') \<Rightarrow>
                if \<not> success then (Inl (HTTPException 500 ''Failed to load VC model''), s')
                else (Inr (vc_model s'), s'))
      else (Inr (vc_model s), s))"

text \<open>
  The body of \<open>unload_after_delay\<close> once its \<open>time.sleep(delay_minutes * 60)\<close> is over:
  \<open>now\<close> is the value of \<open>time.time()\<close> at that moment. \<open>model_load_time\<close> is tested for
  truth first (\<open>None\<close> and \<open>0.0\<close> are false).
\<close>

definition unload_after_delay :: "real \<Rightarrow> real \<Rightarrow> runtime \<Rightarrow> runtime" where
  "unload_after_delay delay_minutes now s =
     (case model_load_time s of
        None \<Rightarrow> s
      | Some loaded_at \<Rightarrow>
          if loaded_at \<noteq> 0 \<and> now - loaded_at \<ge> delay_minutes * 60
          then unload_models s else s)"

text \<open>Several \<open>ensure_vc_model_loaded\<close> calls one after the other, at the given times.\<close>

fun ensure_vc_in_turn ::
  "chatterbox \<Rightarrow> string option \<Rightarrow> real list \<Rightarrow> runtime
     \<Rightarrow> (py_exception + handle option) list \<times> runtime" where
  "ensure_vc_in_turn cb device [] s = ([], s)"
| "ensure_vc_in_turn cb device (now # nows) s =
     (case ensure_vc_model_loaded cb now device s of
        (result, s') \<Rightarrow>
          (case ensure_vc_in_turn cb device nows s' of
             (results, s'') \<Rightarrow> (result # results, s'')))"

text \<open>An environment used as a concrete input: the package is installed and every load succeeds.\<close>

definition working_chatterbox :: chatterbox where
  "working_chatterbox =
     \<lparr> CHATTERBOX_AVAILABLE = True,
       from_pretrained_ok = (\<lambda>kind device. True),
       get_default_device = ''cpu'' \<rparr>"

subsection \<open>Overlapping calls\<close>

text \<open>
  Request handlers run on a pool of threads, and the interpreter may switch threads
  between any two statements. A call of \<open>ensure_vc_model_loaded\<close> is therefore a sequence
  of steps, each one statement's access to the globals: the test \<open>vc_model is None\<close>; the
  reload test of \<open>load_models\<close>; the two \<open>from_pretrained\<close> assignments; the assignments
  of \<open>current_device\<close> and \<open>model_load_time\<close>; and \<open>return vc_model\<close>. A thread is at
  one of these points, or has returned, or has raised.
\<close>

datatype ensure_pc =
    AtEnsureTest
  | AtReloadTest string
  | AtLoadTTS string
  | AtLoadVC string
  | AtRecord string
  | AtReturn
  | Returned "handle option"
  | Raised py_exception

fun ensure_vc_step ::
  "chatterbox \<Rightarrow> real \<Rightarrow> string option \<Rightarrow> ensure_pc \<Rightarrow> runtime \<Rightarrow> ensure_pc \<times> runtime" where
  "ensure_vc_step cb now device AtEnsureTest s =
     (if vc_model s = None
      then (if \<not> CHATTERBOX_AVAILABLE cb
            then (Raised (HTTPException 500
                   ''ChatterBox models are not available. Please install the chatterbox package.''), s)
            else (AtReloadTest (case device of None \<Rightarrow> get_default_device cb | Some d \<Rightarrow> d), s))
      else (AtReturn, s))"
| "ensure_vc_step cb now device (AtReloadTest d) s =
     (if current_device s \<noteq> d \<or> tts_model s = None \<or> vc_model s = None
      then (AtLoadTTS d, s\<lparr>loads_started := loads_started s + 1\<rparr>)
      else (AtReturn, s))"
| "ensure_vc_step cb now device (AtLoadTTS d) s =
     (if \<not> from_pretrained_ok cb TTS d
      then (Raised (HTTPException 500 ''Failed to load VC model''), s)
      else (AtLoadVC d, s\<lparr>tts_model := Some (pretrained_calls s),
                           pretrained_calls := pretrained_calls s + 1\<rparr>))"
| "ensure_vc_step cb now device (AtLoadVC d) s =
     (if \<not> from_pretrained_ok cb VC d
      then (Raised (HTTPException 500 ''Failed to load VC model''), s)
      else (AtRecord d, s\<lparr>vc_model := Some (pretrained_calls s),
                           pretrained_calls := pretrained_calls s + 1\<rparr>))"
| "ensure_vc_step cb now device (AtRecord d) s =
     (AtReturn, s\<lparr>current_device := d, model_load_time := Some now\<rparr>)"
| "ensure_vc_step cb now device AtReturn s = (Returned (vc_model s), s)"
| "ensure_vc_step cb now device (Returned h) s = (Returned h, s)"
| "ensure_vc_step cb now device (Raised e) s = (Raised e, s)"

text \<open>
  A schedule names, step by step, the thread that runs next and the clock value it would
  read; all threads call with the same \<open>device\<close> argument.
\<close>

fun run_schedule ::
  "chatterbox \<Rightarrow> string option \<Rightarrow> (nat \<times> real) list \<Rightarrow> ensure_pc list \<times> runtime
     \<Rightarrow> ensure_pc list \<times> runtime" where
  "run_schedule cb device [] (threads, s) = (threads, s)"
| "run_schedule cb device ((tid, now) # schedule) (threads, s) =
     (if tid < length threads
      then (case ensure_vc_step cb now device (threads ! tid) s of
              (pc', s') \<Rightarrow> run_schedule cb device schedule (threads[tid := pc'], s'))
      else run_schedule cb device schedule (threads, s))"

text \<open>
  A schedule of two overlapping calls: both pass the two tests before either has assigned
  a model, then each runs to its return.
\<close>

definition overlapping_schedule :: "(nat \<times> real) list" where
  "overlapping_schedule =
     [(0, 10), (1, 10), (0, 10), (1, 10),
      (0, 11), (0, 12), (0, 12), (0, 12),
      (1, 13), (1, 14), (1, 14), (1, 14)]"

text \<open>
  A run used as a concrete input. A first request loads the models at time 1 and, when
  its generation is done at time 3, arms the timer with the delay of 5 minutes that every
  caller passes, so the timer's sleep ends at time 303. A second request calls
  \<open>ensure_tts_model_loaded\<close> at time 290.
\<close>

definition after_first_request :: runtime where
  "after_first_request = snd (ensure_tts_model_loaded working_chatterbox 1 None initial_runtime)"

definition after_second_request :: runtime where
  "after_second_request =
     snd (ensure_tts_model_loaded working_chatterbox 290 None after_first_request)"

section \<open>Properties of the chunk splitter\<close>

lemma py_slice_window:
  assumes "0 \<le> i" and "0 < c"
  shows "py_slice xs i (i + c) = take (nat c) (drop (nat i) xs)"
proof (cases "i < int (length xs)")
  case True
  with assms have lo: "slice_index (int (length xs)) i = nat i"
    by (simp add: slice_index_def min_def max_def)
  from True assms
  have hi: "slice_index (int (length xs)) (i + c) = nat (min (int (length xs)) (i + c))"
    by (simp add: slice_index_def min_def max_def)
  have "take (nat (min (int (length xs)) (i + c)) - nat i) (drop (nat i) xs)
          = take (nat c) (drop (nat i) xs)"
  proof (cases "i + c \<le> int (length xs)")
    case True
    with assms have "nat (min (int (length xs)) (i + c)) - nat i = nat c"
      by (simp add: min_def)
    then show ?thesis by simp
  next
    case False
    with assms True
    have "nat (min (int (length xs)) (i + c)) - nat i = length (drop (nat i) xs)"
      by (simp add: min_def)
    moreover from False assms True have "length (drop (nat i) xs) \<le> nat c"
      by simp
    ultimately show ?thesis by simp
  qed
  with lo hi show ?thesis by (simp add: py_slice_def Let_def)
next
  case False
  with assms have "length xs \<le> nat i" by linarith
  moreover from False assms have "length xs \<le> slice_index (int (length xs)) i"
    by (simp add: slice_index_def min_def max_def)
  ultimately show ?thesis by (simp add: py_slice_def Let_def)
qed

lemma range_up_step:
  "0 < step \<Longrightarrow> i < stop \<Longrightarrow> range_up i stop step = i # range_up (i + step) stop step"
  by (subst range_up.simps) simp

lemma range_up_done: "\<not> i < stop \<Longrightarrow> range_up i stop step = []"
  by (subst range_up.simps) simp

lemma range_up_nonempty: "range_up i stop step \<noteq> [] \<Longrightarrow> i < stop"
  using range_up_done by blast

lemma windows_concat:
  "0 < c \<Longrightarrow> 0 \<le> i \<Longrightarrow> n = int (length xs) \<Longrightarrow>
    concat (map (\<lambda>k. py_slice xs k (k + c)) (range_up i n c)) = drop (nat i) xs"
proof (induction i n c rule: range_up.induct)
  case (1 i stop step)
  show ?case
  proof (cases "i < stop")
    case True
    with 1 have IH:
      "concat (map (\<lambda>k. py_slice xs k (k + step)) (range_up (i + step) stop step))
         = drop (nat (i + step)) xs"
      by simp
    from 1(2,3) have "nat (i + step) = nat step + nat i"
      by (simp add: nat_add_distrib)
    then have "take (nat step) (drop (nat i) xs) @ drop (nat (i + step)) xs = drop (nat i) xs"
      by (metis append_take_drop_id drop_drop)
    with True IH 1(2,3) show ?thesis
      by (simp add: range_up_step py_slice_window)
  next
    case False
    with 1 have "length xs \<le> nat i" by linarith
    with False show ?thesis by (simp add: range_up_done)
  qed
qed

lemma windows_lengths:
  "0 < c \<Longrightarrow> 0 \<le> i \<Longrightarrow> n = int (length xs) \<Longrightarrow>
    (\<forall>ch \<in> set (butlast (map (\<lambda>k. py_slice xs k (k + c)) (range_up i n c))).
        length ch = nat c) \<and>
    (\<forall>ch \<in> set (map (\<lambda>k. py_slice xs k (k + c)) (range_up i n c)).
        0 < length ch \<and> length ch \<le> nat c)"
proof (induction i n c rule: range_up.induct)
  case (1 i stop step)
  show ?case
  proof (cases "i < stop")
    case True
    let ?f = "\<lambda>k. py_slice xs k (k + step)"
    let ?rest = "map ?f (range_up (i + step) stop step)"
    from True 1(2) have unfold: "map ?f (range_up i stop step) = ?f i # ?rest"
      by (simp add: range_up_step)
    from True 1 have IH1: "\<forall>ch \<in> set (butlast ?rest). length ch = nat step"
      and IH2: "\<forall>ch \<in> set ?rest. 0 < length ch \<and> length ch \<le> nat step"
      by simp_all
    have hd_len: "length (?f i) = min (nat step) (length xs - nat i)"
      using 1(2,3) by (simp add: py_slice_window)
    from True 1(3,4) have pos: "nat i < length xs" by simp
    from hd_len pos 1(2) have hd_ok: "0 < length (?f i) \<and> length (?f i) \<le> nat step"
      by simp
    have full: "length (?f i) = nat step" if ne: "?rest \<noteq> []"
    proof -
      from ne have "range_up (i + step) stop step \<noteq> []" by simp
      then have "i + step < stop" by (rule range_up_nonempty)
      with 1(2,3,4) have "nat step \<le> length xs - nat i" by simp
      with hd_len show ?thesis by simp
    qed
    have A: "\<forall>ch \<in> set (butlast (?f i # ?rest)). length ch = nat step"
    proof (cases "?rest = []")
      case True
      then show ?thesis by simp
    next
      case False
      then have "butlast (?f i # ?rest) = ?f i # butlast ?rest" by simp
      with full[OF False] IH1 show ?thesis by simp
    qed
    have B: "\<forall>ch \<in> set (?f i # ?rest). 0 < length ch \<and> length ch \<le> nat step"
      using hd_ok IH2 by simp
    from A B show ?thesis unfolding unfold by blast
  next
    case False
    then show ?thesis by (simp add: range_up_done)
  qed
qed

lemma length_concat_full_windows:
  "\<forall>ch \<in> set chs. length ch = c \<Longrightarrow> length (concat chs) = length chs * c"
  by (induction chs) simp_all

text \<open>
  Claim C1. For a file that decodes, a positive chunk duration and a positive sample rate,
  the chunks concatenated in order are exactly the decoded samples; every chunk but the
  last has exactly \<open>chunk_duration_seconds * sample_rate\<close> samples; the last chunk
  is non-empty, is at most that long and holds the remainder; an empty signal yields no
  chunk.
\<close>

theorem split_audio_into_chunks_partition:
  assumes load: "librosa_load audio_path sample_rate = Inr (audio, sr)"
    and dur: "0 < chunk_duration_seconds"
    and rate: "0 < sample_rate"
  shows "\<exists>chunks.
      split_audio_into_chunks librosa_load audio_path chunk_duration_seconds sample_rate
        = Inr (chunks, sr)
    \<and> concat chunks = audio
    \<and> (\<forall>ch \<in> set (butlast chunks). length ch = nat (chunk_duration_seconds * sample_rate))
    \<and> (chunks \<noteq> [] \<longrightarrow>
          last chunks \<noteq> []
        \<and> length (last chunks) \<le> nat (chunk_duration_seconds * sample_rate)
        \<and> length (last chunks)
            = length audio - (length chunks - 1) * nat (chunk_duration_seconds * sample_rate))
    \<and> (audio = [] \<longrightarrow> chunks = [])"
proof -
  let ?c = "chunk_duration_seconds * sample_rate"
  let ?chunks = "map (\<lambda>i. py_slice audio i (i + ?c)) (range_up 0 (int (length audio)) ?c)"
  from dur rate have c: "0 < ?c" by simp
  have run: "split_audio_into_chunks librosa_load audio_path chunk_duration_seconds sample_rate
               = Inr (?chunks, sr)"
    using load dur rate by (simp add: split_audio_into_chunks_def py_range_def Let_def)
  have cat: "concat ?chunks = audio"
    using windows_concat[OF c, of 0 "int (length audio)" audio] by simp
  have lens: "(\<forall>ch \<in> set (butlast ?chunks). length ch = nat ?c) \<and>
              (\<forall>ch \<in> set ?chunks. 0 < length ch \<and> length ch \<le> nat ?c)"
    using windows_lengths[OF c, of 0 "int (length audio)" audio] by simp
  have lastp: "last ?chunks \<noteq> [] \<and> length (last ?chunks) \<le> nat ?c
      \<and> length (last ?chunks) = length audio - (length ?chunks - 1) * nat ?c"
    if ne: "?chunks \<noteq> []"
  proof -
    from ne have mem: "last ?chunks \<in> set ?chunks" by (rule last_in_set)
    with lens have l1: "0 < length (last ?chunks) \<and> length (last ?chunks) \<le> nat ?c" by blast
    from ne have "concat ?chunks = concat (butlast ?chunks) @ last ?chunks"
      by (metis append_butlast_last_id concat_append concat.simps(2) concat.simps(1) append_Nil2)
    with cat have "length audio = length (concat (butlast ?chunks)) + length (last ?chunks)"
      by (metis length_append)
    moreover from lens have "length (concat (butlast ?chunks)) = length (butlast ?chunks) * nat ?c"
      by (intro length_concat_full_windows) blast
    ultimately have "length (last ?chunks) = length audio - (length ?chunks - 1) * nat ?c"
      by simp
    with l1 show ?thesis by blast
  qed
  have empty: "?chunks = []" if "audio = []"
    using that by (simp add: range_up_done)
  from run cat lens lastp empty show ?thesis by blast
qed

theorem split_audio_into_chunks_partition_witness:
  "seven_sample_load ''voice.wav'' 3 = Inr ([1, 2, 3, 4, 5, 6, 7], 3)
   \<and> (0::int) < 1 \<and> (0::int) < 3
   \<and> split_audio_into_chunks seven_sample_load ''voice.wav'' 1 3
        = Inr ([[1, 2, 3], [4, 5, 6], [7]], 3)
   \<and> (\<exists>chunks. split_audio_into_chunks seven_sample_load ''voice.wav'' 1 3 = Inr (chunks, 3)
        \<and> concat chunks = [1, 2, 3, 4, 5, 6, 7]
        \<and> (\<forall>ch \<in> set (butlast chunks). length ch = nat (1 * 3))
        \<and> (chunks \<noteq> [] \<longrightarrow> last chunks \<noteq> [] \<and> length (last chunks) \<le> nat (1 * 3)
              \<and> length (last chunks) = length [1, 2, 3, 4, 5, 6, 7::real] - (length chunks - 1) * nat (1 * 3))
        \<and> ([1, 2, 3, 4, 5, 6, 7::real] = [] \<longrightarrow> chunks = []))"
proof -
  have h: "seven_sample_load ''voice.wav'' 3 = Inr ([1, 2, 3, 4, 5, 6, 7], 3)"
    by (simp add: seven_sample_load_def)
  have d: "(0::int) < 1" and r: "(0::int) < 3" by simp_all
  have v: "split_audio_into_chunks seven_sample_load ''voice.wav'' 1 3
             = Inr ([[1, 2, 3], [4, 5, 6], [7]], 3)"
    by (simp add: split_audio_into_chunks_def seven_sample_load_def py_range_def
                  range_up_step range_up_done py_slice_def slice_index_def)
  from split_audio_into_chunks_partition
         [of seven_sample_load "''voice.wav''" 3 "[1, 2, 3, 4, 5, 6, 7]" 3 1, OF h d r] h v
  show ?thesis by simp
qed

text \<open>
  Claim C9, as amended. When the decoder raises, \<open>split_audio_into_chunks\<close> does not
  raise: its handler returns the empty chunk list together with the requested sample
  rate.
\<close>

theorem split_audio_into_chunks_no_decode_error:
  assumes "librosa_load audio_path sample_rate = Inl e"
  shows "split_audio_into_chunks librosa_load audio_path chunk_duration_seconds sample_rate
           = Inr ([], sample_rate)"
  using assms by (simp add: split_audio_into_chunks_def)

theorem split_audio_into_chunks_no_decode_error_witness:
  "undecodable_load ''broken.wav'' 16000 = Inl DecodeError
   \<and> split_audio_into_chunks undecodable_load ''broken.wav'' 60 16000 = Inr ([], 16000)"
proof -
  have h: "undecodable_load ''broken.wav'' 16000 = Inl DecodeError"
    by (simp add: undecodable_load_def)
  from split_audio_into_chunks_no_decode_error
         [of undecodable_load "''broken.wav''" 16000 DecodeError 60, OF h] h
  show ?thesis by simp
qed

text \<open>
  Claim C9 as stated fails: on a file that does not decode the result is the normal
  return value \<open>([], 16000)\<close>, not a propagated \<open>DecodeError\<close>.
\<close>

theorem split_audio_into_chunks_decode_error_counterexample:
  "split_audio_into_chunks undecodable_load ''broken.wav'' 60 16000 = Inr ([], 16000)
   \<and> split_audio_into_chunks undecodable_load ''broken.wav'' 60 16000 \<noteq> Inl DecodeError"
  by (simp add: split_audio_into_chunks_def undecodable_load_def)

section \<open>Properties of the audio effects\<close>

text \<open>
  Claim C7. With pitch shift 0, speed factor 1 and volume factor 1 every stage is
  skipped: the result is the input array itself, whatever the two external transforms
  would do (they are not called).
\<close>

theorem apply_audio_effects_noop:
  "apply_audio_effects fx audio_array sample_rate 0 1 1 = audio_array"
  by (simp add: apply_audio_effects_def apply_audio_effects_try_def)





section \<open>Properties of the conversion worker and the combiner\<close>

lemma convert_chunks_length:
  "length (convert_chunks vc fx i chunks sr tvp ps sf vf acc) = length acc + length chunks"
  by (induction chunks arbitrary: i acc) simp_all



lemma app_convert_chunks_length:
  "length (app_convert_chunks vc i chunks sr tvp acc) = length acc + length chunks"
  by (induction chunks arbitrary: i acc) simp_all





lemma convert_chunks_total_length_failed:
  "\<forall>k < length chunks. \<exists>e. vc (i + k) (chunks ! k) sr tvp = Inl e \<Longrightarrow>
     convert_chunks vc fx i chunks sr tvp ps sf vf acc = acc @ map zeros_like chunks"
proof (induction chunks arbitrary: i acc)
  case Nil
  then show ?case by simp
next
  case (Cons chunk rest)
  from Cons.prems have hd: "\<exists>e. vc i chunk sr tvp = Inl e" by force
  have "\<forall>k < length rest. \<exists>e. vc (Suc i + k) (rest ! k) sr tvp = Inl e"
  proof (intro allI impI)
    fix k assume "k < length rest"
    then have "Suc k < length (chunk # rest)" by simp
    with Cons.prems have "\<exists>e. vc (i + Suc k) ((chunk # rest) ! Suc k) sr tvp = Inl e" by blast
    then show "\<exists>e. vc (Suc i + k) (rest ! k) sr tvp = Inl e" by simp
  qed
  from Cons.IH[OF this] hd show ?case by auto
qed

lemma app_convert_chunks_total_length_failed:
  "\<forall>k < length chunks. \<exists>e. vc (i + k) (chunks ! k) sr tvp = Inl e \<Longrightarrow>
     app_convert_chunks vc i chunks sr tvp acc = acc @ map zeros_like chunks"
proof (induction chunks arbitrary: i acc)
  case Nil
  then show ?case by simp
next
  case (Cons chunk rest)
  from Cons.prems have hd: "\<exists>e. vc i chunk sr tvp = Inl e" by force
  have "\<forall>k < length rest. \<exists>e. vc (Suc i + k) (rest ! k) sr tvp = Inl e"
  proof (intro allI impI)
    fix k assume "k < length rest"
    then have "Suc k < length (chunk # rest)" by simp
    with Cons.prems have "\<exists>e. vc (i + Suc k) ((chunk # rest) ! Suc k) sr tvp = Inl e" by blast
    then show "\<exists>e. vc (Suc i + k) (rest ! k) sr tvp = Inl e" by simp
  qed
  from Cons.IH[OF this] hd show ?case by auto
qed

lemma concat_zeros_like:
  "concat (map zeros_like chunks) = replicate (sum_list (map length chunks)) 0"
  by (induction chunks) (simp_all add: zeros_like_def replicate_add)



text \<open>
  Claim C8. For a non-empty list of chunks the function returns a one-row tensor, never
  \<open>None\<close>, whatever the converter does; when the conversion of every chunk raises, that
  row is silence whose length is the sum of the chunk lengths. This holds for
  \<open>backend/main.py\<close> and for \<open>app.py\<close>.
\<close>

theorem process_audio_chunks_returns_signal:
  assumes "chunks \<noteq> []"
  shows
    "(\<exists>combined.
        process_audio_chunks vc_generate fx chunks sample_rate target_voice_path
          pitch_shift speed_factor volume_factor = Some [combined]
      \<and> ((\<forall>k < length chunks. \<exists>e. vc_generate k (chunks ! k) sample_rate target_voice_path = Inl e)
           \<longrightarrow> combined = replicate (sum_list (map length chunks)) 0))
     \<and> (\<exists>combined.
        app_process_audio_chunks vc_generate chunks sample_rate target_voice_path
          = Some [combined]
      \<and> ((\<forall>k < length chunks. \<exists>e. vc_generate k (chunks ! k) sample_rate target_voice_path = Inl e)
           \<longrightarrow> combined = replicate (sum_list (map length chunks)) 0))"
proof -
  let ?cc = "convert_chunks vc_generate fx 0 chunks sample_rate target_voice_path
               pitch_shift speed_factor volume_factor []"
  let ?ac = "app_convert_chunks vc_generate 0 chunks sample_rate target_voice_path []"
  let ?fail = "\<forall>k < length chunks. \<exists>e. vc_generate k (chunks ! k) sample_rate target_voice_path = Inl e"
  from assms have "length ?cc \<noteq> 0" by (simp add: convert_chunks_length)
  then have ne: "?cc \<noteq> []" by simp
  from assms have "length ?ac \<noteq> 0" by (simp add: app_convert_chunks_length)
  then have ane: "?ac \<noteq> []" by simp
  have r1: "process_audio_chunks vc_generate fx chunks sample_rate target_voice_path
          pitch_shift speed_factor volume_factor = Some [concat ?cc]"
    using ne by (simp add: process_audio_chunks_def Let_def)
  have r2: "app_process_audio_chunks vc_generate chunks sample_rate target_voice_path
              = Some [concat ?ac]"
    using ane by (simp add: app_process_audio_chunks_def Let_def)
  have z1: "concat ?cc = replicate (sum_list (map length chunks)) 0" if ?fail
    using convert_chunks_total_length_failed
            [of chunks vc_generate 0 sample_rate target_voice_path fx
                pitch_shift speed_factor volume_factor "[]"] that
    by (simp add: concat_zeros_like)
  have z2: "concat ?ac = replicate (sum_list (map length chunks)) 0" if ?fail
    using app_convert_chunks_total_length_failed
            [of chunks vc_generate 0 sample_rate target_voice_path "[]"] that
    by (simp add: concat_zeros_like)
  from r1 r2 z1 z2 show ?thesis by blast
qed

theorem process_audio_chunks_returns_signal_witness:
  "[[1, 2], [3, 4, 5], [6::real]] \<noteq> []
   \<and> process_audio_chunks failing_vc passthrough_effects [[1, 2], [3, 4, 5], [6]]
        16000 None 0 1 1 = Some [[0, 0, 0, 0, 0, 0]]
   \<and> app_process_audio_chunks failing_vc [[1, 2], [3, 4, 5], [6]] 16000 None
        = Some [[0, 0, 0, 0, 0, 0]]"
proof -
  have ne: "[[1, 2], [3, 4, 5], [6::real]] \<noteq> []" by simp
  have fl: "\<forall>k < length [[1, 2], [3, 4, 5], [6::real]].
              \<exists>e. failing_vc k ([[1, 2], [3, 4, 5], [6]] ! k) 16000 None = Inl e"
    by (simp add: failing_vc_def)
  have rep: "replicate (sum_list (map length [[1, 2], [3, 4, 5], [6::real]])) (0::real)
               = [0, 0, 0, 0, 0, 0]"
    by (simp add: numeral_eq_Suc)
  from process_audio_chunks_returns_signal
         [of "[[1, 2], [3, 4, 5], [6]]" failing_vc passthrough_effects 16000 None 0 1 1, OF ne]
       fl rep
  show ?thesis by auto
qed

section \<open>Properties of the voice-sample validation\<close>



lemma validate_audio_file_too_large:
  "validate_audio_file (three_second_upload\<lparr>os_path_getsize := (\<lambda>p. 104857601)\<rparr>) ''u'' 10 = (False, ''File too large. Maximum size is 100MB'')"
  by (simp add: validate_audio_file_def three_second_upload_def Let_def str_nat.simps digit_char_def)

lemma validate_audio_file_too_long:
  "validate_audio_file (three_second_upload\<lparr>librosa_load_native := (\<lambda>p. Inr (replicate 9600016 0, 16000))\<rparr>) ''u'' 10 = (False, ''Audio too long. Maximum duration is 10 minutes'')"
  by (simp add: validate_audio_file_def three_second_upload_def Let_def str_nat.simps digit_char_def str_int_def get_audio_duration_seconds_def)

section \<open>Properties of the video audio reconciler\<close>



section \<open>Properties of the model lifecycle manager\<close>

lemma ensure_tts_keeps_load_time:
  "tts_model s = Some h \<Longrightarrow> ensure_tts_model_loaded cb now device s = (Inr (Some h), s)"
  by (simp add: ensure_tts_model_loaded_def)

lemma ensure_vc_keeps_load_time:
  "vc_model s = Some h \<Longrightarrow> ensure_vc_model_loaded cb now device s = (Inr (Some h), s)"
  by (simp add: ensure_vc_model_loaded_def)

lemma unload_after_delay_by_load_time:
  "model_load_time s = Some loaded_at \<Longrightarrow> loaded_at \<noteq> 0 \<Longrightarrow>
   now - loaded_at \<ge> delay_minutes * 60 \<Longrightarrow>
   unload_after_delay delay_minutes now s = unload_models s"
  by (simp add: unload_after_delay_def)

lemma unload_after_delay_after_recent_load:
  "model_load_time s = Some loaded_at \<Longrightarrow> now - loaded_at < delay_minutes * 60 \<Longrightarrow>
   unload_after_delay delay_minutes now s = s"
  by (simp add: unload_after_delay_def)

lemma after_first_request_eq:
  "after_first_request =
     \<lparr> tts_model = Some 0, vc_model = Some 1, current_device = ''cpu'',
       model_load_time = Some 1, pretrained_calls = 2, loads_started = 1 \<rparr>"
  by (simp add: after_first_request_def ensure_tts_model_loaded_def load_models_def
                working_chatterbox_def initial_runtime_def Let_def)

text \<open>
  Claim C5, evaluated on the code. The timer compares the clock with \<open>model_load_time\<close>,
  which only a load sets; a call of \<open>ensure_tts_model_loaded\<close> on loaded models returns
  the handle and leaves that time as it was. In the run defined above the second request
  obtains the handle at time 290, inside the timer's window from 3 to 303, and at 303 the
  timer unloads both models all the same.
\<close>

theorem idle_timer_unloads_model_in_use:
  "fst (ensure_tts_model_loaded working_chatterbox 290 None after_first_request) = Inr (Some 0)
   \<and> model_load_time after_second_request = Some 1
   \<and> tts_model after_second_request = Some 0
   \<and> tts_model (unload_after_delay 5 303 after_second_request) = None
   \<and> vc_model (unload_after_delay 5 303 after_second_request) = None"
  by (simp add: after_second_request_def after_first_request_eq ensure_tts_model_loaded_def
                unload_after_delay_def unload_models_def)

text \<open>
  Claim C6 as stated fails: no lock guards the loading block. Under the overlapping
  schedule of two calls from the unloaded state the block is entered twice, four models
  are built, and the two calls return different handles.
\<close>

theorem overlapping_ensure_calls_load_twice:
  "run_schedule working_chatterbox None overlapping_schedule
     ([AtEnsureTest, AtEnsureTest], initial_runtime)
   = ([Returned (Some 1), Returned (Some 3)],
      \<lparr> tts_model = Some 2, vc_model = Some 3, current_device = ''cpu'',
        model_load_time = Some 14, pretrained_calls = 4, loads_started = 2 \<rparr>)"
  by (simp add: overlapping_schedule_def working_chatterbox_def initial_runtime_def)

lemma ensure_vc_in_turn_loaded:
  "vc_model s = Some h \<Longrightarrow>
   ensure_vc_in_turn cb device nows s = (replicate (length nows) (Inr (Some h)), s)"
  by (induction nows) (simp_all add: ensure_vc_keeps_load_time)

text \<open>
  Claim C6, as amended. When the calls of \<open>ensure_vc_model_loaded\<close> on one device run one
  after the other, starting with no voice-conversion model loaded, and the package is
  installed and both models load on that device, then the loading block is entered
  exactly once and every call returns the same handle.
\<close>

theorem ensure_vc_in_turn_loads_once:
  assumes unloaded: "vc_model s = None"
    and avail: "CHATTERBOX_AVAILABLE cb"
    and dev: "d = (case device of None \<Rightarrow> get_default_device cb | Some x \<Rightarrow> x)"
    and tts_ok: "from_pretrained_ok cb TTS d"
    and vc_ok: "from_pretrained_ok cb VC d"
    and calls: "nows \<noteq> []"
  shows "\<exists>h s'. ensure_vc_in_turn cb device nows s
                   = (replicate (length nows) (Inr (Some h)), s')
               \<and> vc_model s' = Some h
               \<and> loads_started s' = loads_started s + 1"
proof -
  from calls obtain now rest where nows: "nows = now # rest" by (cases nows) auto
  let ?h = "Suc (pretrained_calls s)"
  let ?s1 = "s\<lparr>tts_model := Some (pretrained_calls s), vc_model := Some ?h,
               pretrained_calls := Suc ?h, current_device := d,
               model_load_time := Some now, loads_started := loads_started s + 1\<rparr>"
  have first: "ensure_vc_model_loaded cb now device s = (Inr (Some ?h), ?s1)"
    using unloaded avail tts_ok vc_ok dev
    by (simp add: ensure_vc_model_loaded_def load_models_def Let_def)
  have "vc_model ?s1 = Some ?h" by simp
  from ensure_vc_in_turn_loaded[OF this, of cb device rest]
  have "ensure_vc_in_turn cb device nows s
          = (replicate (length nows) (Inr (Some ?h)), ?s1)"
    using first nows by simp
  moreover have "vc_model ?s1 = Some ?h \<and> loads_started ?s1 = loads_started s + 1"
    by simp
  ultimately show ?thesis by blast
qed

theorem ensure_vc_in_turn_loads_once_witness:
  "vc_model initial_runtime = None
   \<and> CHATTERBOX_AVAILABLE working_chatterbox
   \<and> from_pretrained_ok working_chatterbox TTS ''cpu''
   \<and> from_pretrained_ok working_chatterbox VC ''cpu''
   \<and> [10, 11, 12::real] \<noteq> []
   \<and> (\<exists>h s'. ensure_vc_in_turn working_chatterbox None [10, 11, 12] initial_runtime
                 = ([Inr (Some h), Inr (Some h), Inr (Some h)], s')
             \<and> vc_model s' = Some h
             \<and> loads_started s' = 1)"
proof -
  have u: "vc_model initial_runtime = None" by (simp add: initial_runtime_def)
  have a: "CHATTERBOX_AVAILABLE working_chatterbox" by (simp add: working_chatterbox_def)
  have d: "''cpu'' = (case None of None \<Rightarrow> get_default_device working_chatterbox | Some x \<Rightarrow> x)"
    by (simp add: working_chatterbox_def)
  have t: "from_pretrained_ok working_chatterbox TTS ''cpu''"
    and v: "from_pretrained_ok working_chatterbox VC ''cpu''"
    by (simp_all add: working_chatterbox_def)
  have n: "[10, 11, 12::real] \<noteq> []" by simp
  have l: "loads_started initial_runtime = 0" by (simp add: initial_runtime_def)
  from ensure_vc_in_turn_loads_once[OF u a d t v n] l
  have "\<exists>h s'. ensure_vc_in_turn working_chatterbox None [10, 11, 12] initial_runtime
                 = ([Inr (Some h), Inr (Some h), Inr (Some h)], s')
             \<and> vc_model s' = Some h
             \<and> loads_started s' = 1"
    by (simp add: numeral_3_eq_3)
  with u a t v n show ?thesis by blast
qed

text \<open>
  The steps of one thread running alone compose to \<open>ensure_vc_model_loaded\<close>: the
  step semantics adds the interleavings and nothing else.
\<close>

lemma single_thread_run:
  "run_schedule cb device
     [(0, now), (0, now), (0, now), (0, now), (0, now), (0, now)] ([AtEnsureTest], s)
   = (case ensure_vc_model_loaded cb now device s of
        (Inr h, s') \<Rightarrow> ([Returned h], s')
      | (Inl e, s') \<Rightarrow> ([Raised e], s'))"
  by (simp add: ensure_vc_model_loaded_def load_models_def Let_def)

end
